theory Spec2Isabelle
  imports Main "HOL-Library.Sublist"
begin

section \<open>JavaScript values, errors and the observable trace\<close>

text \<open>
  The agent of \<^verbatim>\<open>linkedin-agent.js\<close> is a class whose methods talk to the outside world
  through four libraries: \<^verbatim>\<open>axios\<close> (HTTP), \<^verbatim>\<open>fs\<close> (the image file), \<^verbatim>\<open>console\<close>
  (diagnostics) and \<^verbatim>\<open>node-schedule\<close> (timers). The model keeps the methods as they are
  written and makes the outside world explicit: every call into one of the libraries is
  appended to a trace of events, and what the library answers is read from a \<open>world\<close>
  that may depend on everything that happened before.
\<close>

datatype jsval =
    JUndefined
  | JNull
  | JBool bool
  | JNum int
  | JStr string
  | JBuffer string
  | JArr "jsval list"
  | JObj "(string \<times> jsval) list"

text \<open>JavaScript truthiness, as tested by \<^verbatim>\<open>if (x)\<close> and \<^verbatim>\<open>!x\<close>.\<close>

fun truthy :: "jsval \<Rightarrow> bool" where
  "truthy JUndefined = False"
| "truthy JNull = False"
| "truthy (JBool b) = b"
| "truthy (JNum n) = (n \<noteq> 0)"
| "truthy (JStr s) = (s \<noteq> [])"
| "truthy (JBuffer b) = True"
| "truthy (JArr xs) = True"
| "truthy (JObj kvs) = True"

text \<open>
  An environment variable is a string or \<^verbatim>\<open>undefined\<close>; \<open>of_env\<close> is the value the
  field holds, \<open>template\<close> is what a template literal \<^verbatim>\<open>${x}\<close> prints for it.
\<close>

fun of_env :: "string option \<Rightarrow> jsval" where
  "of_env None = JUndefined"
| "of_env (Some s) = JStr s"

fun template :: "string option \<Rightarrow> string" where
  "template None = ''undefined''"
| "template (Some s) = s"

text \<open>
  A thrown error object. \<^verbatim>\<open>handleError\<close> looks at three of its properties:
  \<^verbatim>\<open>response\<close> (set by axios when the server answered with a non-2xx status),
  \<^verbatim>\<open>request\<close> (set by axios when a request was sent) and \<^verbatim>\<open>message\<close>.
  A plain \<^verbatim>\<open>new Error(msg)\<close>, a \<^verbatim>\<open>TypeError\<close> and an error of \<^verbatim>\<open>fs\<close> have neither
  \<^verbatim>\<open>response\<close> nor \<^verbatim>\<open>request\<close>.
\<close>

record js_error =
  name :: string
  message :: string
  response :: jsval
  request :: jsval

definition Error :: "string \<Rightarrow> js_error" where
  "Error msg = \<lparr>name = ''Error'', message = msg, response = JUndefined, request = JUndefined\<rparr>"

definition TypeError :: "string \<Rightarrow> js_error" where
  "TypeError msg =
     \<lparr>name = ''TypeError'', message = msg, response = JUndefined, request = JUndefined\<rparr>"

text \<open>
  Property access \<^verbatim>\<open>v.k\<close>: a \<^verbatim>\<open>TypeError\<close> on \<^verbatim>\<open>undefined\<close> and \<^verbatim>\<open>null\<close>, the
  property (or \<^verbatim>\<open>undefined\<close>) on an object. None of the property names the agent reads
  exists on a primitive, a buffer or an array, so those give \<^verbatim>\<open>undefined\<close>. The wording
  of the engine's message is not used anywhere.
\<close>

fun prop_of :: "jsval \<Rightarrow> string \<Rightarrow> jsval" where
  "prop_of (JObj kvs) k = (case map_of kvs k of None \<Rightarrow> JUndefined | Some v \<Rightarrow> v)"
| "prop_of v k = JUndefined"

fun get_prop :: "jsval \<Rightarrow> string \<Rightarrow> js_error + jsval" where
  "get_prop JUndefined k =
     Inl (TypeError (''Cannot read properties of undefined (reading '' @ k @ '')''))"
| "get_prop JNull k =
     Inl (TypeError (''Cannot read properties of null (reading '' @ k @ '')''))"
| "get_prop v k = Inr (prop_of v k)"

text \<open>A default parameter \<^verbatim>\<open>x = d\<close> takes effect exactly when the argument is \<^verbatim>\<open>undefined\<close>.\<close>

definition default_param :: "jsval \<Rightarrow> jsval \<Rightarrow> jsval" where
  "default_param v d = (if v = JUndefined then d else v)"

datatype http_method = GET | POST | PUT

record http_request =
  meth :: http_method
  url :: jsval
  body :: jsval
  headers :: "(string \<times> jsval) list"

type_synonym date = int

datatype event =
    Http http_request
  | ReadFile jsval
  | ConsoleLog "jsval list"
  | ConsoleError "jsval list"
  | ScheduleJob date jsval

text \<open>The HTTP requests of a trace, in the order they were issued.\<close>

fun http_calls :: "event list \<Rightarrow> http_request list" where
  "http_calls [] = []"
| "http_calls (Http r # es) = r # http_calls es"
| "http_calls (e # es) = http_calls es"

text \<open>
  The world answers the library calls. \<open>axios\<close> gives the \<^verbatim>\<open>data\<close> of the response or
  the error the promise rejects with; \<open>readFileSync\<close> gives the bytes of the file or the
  error thrown; \<open>scheduleJob\<close> is what \<^verbatim>\<open>schedule.scheduleJob\<close> of the timer library
  returns (a job, here a number, or \<^verbatim>\<open>null\<close>); \<open>dateString\<close> is the engine's
  rendering of a \<^verbatim>\<open>Date\<close> inside a template literal. Each answer may depend on the
  trace so far.
\<close>

type_synonym job = "nat option"

record world =
  axios :: "event list \<Rightarrow> http_request \<Rightarrow> js_error + jsval"
  readFileSync :: "event list \<Rightarrow> jsval \<Rightarrow> js_error + string"
  scheduleJob :: "event list \<Rightarrow> date \<Rightarrow> job"
  dateString :: "date \<Rightarrow> string"

text \<open>
  An operation takes the trace so far and returns its result, a thrown error (\<open>Inl\<close>) or
  a value (\<open>Inr\<close>), with the extended trace. \<open>bind_io\<close> is sequencing (an \<^verbatim>\<open>await\<close> or
  a statement boundary), \<open>try_catch\<close> is \<^verbatim>\<open>try { ... } catch (error) { ... }\<close>.
\<close>

type_synonym 'a io = "event list \<Rightarrow> (js_error + 'a) \<times> event list"

definition return_io :: "'a \<Rightarrow> 'a io" where
  "return_io x = (\<lambda>tr. (Inr x, tr))"

definition throw_io :: "js_error \<Rightarrow> 'a io" where
  "throw_io e = (\<lambda>tr. (Inl e, tr))"

definition eval_io :: "js_error + 'a \<Rightarrow> 'a io" where
  "eval_io r = (\<lambda>tr. (r, tr))"

definition bind_io :: "'a io \<Rightarrow> ('a \<Rightarrow> 'b io) \<Rightarrow> 'b io" where
  "bind_io m f =
     (\<lambda>tr. case m tr of (Inl e, tr') \<Rightarrow> (Inl e, tr') | (Inr x, tr') \<Rightarrow> f x tr')"

definition try_catch :: "'a io \<Rightarrow> (js_error \<Rightarrow> 'a io) \<Rightarrow> 'a io" where
  "try_catch m h =
     (\<lambda>tr. case m tr of (Inl e, tr') \<Rightarrow> h e tr' | (Inr x, tr') \<Rightarrow> (Inr x, tr'))"

definition console_log :: "jsval list \<Rightarrow> unit io" where
  "console_log args = (\<lambda>tr. (Inr (), tr @ [ConsoleLog args]))"

definition console_error :: "jsval list \<Rightarrow> unit io" where
  "console_error args = (\<lambda>tr. (Inr (), tr @ [ConsoleError args]))"

definition axios_request :: "world \<Rightarrow> http_request \<Rightarrow> jsval io" where
  "axios_request w r = (\<lambda>tr. (axios w tr r, tr @ [Http r]))"

definition axios_post :: "world \<Rightarrow> jsval \<Rightarrow> jsval \<Rightarrow> (string \<times> jsval) list \<Rightarrow> jsval io" where
  "axios_post w u d hs = axios_request w \<lparr>meth = POST, url = u, body = d, headers = hs\<rparr>"

definition axios_put :: "world \<Rightarrow> jsval \<Rightarrow> jsval \<Rightarrow> (string \<times> jsval) list \<Rightarrow> jsval io" where
  "axios_put w u d hs = axios_request w \<lparr>meth = PUT, url = u, body = d, headers = hs\<rparr>"

definition axios_get :: "world \<Rightarrow> jsval \<Rightarrow> (string \<times> jsval) list \<Rightarrow> jsval io" where
  "axios_get w u hs = axios_request w \<lparr>meth = GET, url = u, body = JUndefined, headers = hs\<rparr>"

definition fs_readFileSync :: "world \<Rightarrow> jsval \<Rightarrow> string io" where
  "fs_readFileSync w p = (\<lambda>tr. (readFileSync w tr p, tr @ [ReadFile p]))"

section \<open>The agent\<close>

record agent =
  accessToken :: "string option"
  personURN :: "string option"
  apiVersion :: string
  baseURL :: string

text \<open>The constructor, from the two environment variables.\<close>

definition LinkedInAgent :: "string option \<Rightarrow> string option \<Rightarrow> agent" where
  "LinkedInAgent token urn =
     \<lparr>accessToken = token, personURN = urn, apiVersion = ''202311'',
      baseURL = ''https://api.linkedin.com/v2''\<rparr>"

definition validateConfig :: "agent \<Rightarrow> unit io" where
  "validateConfig a =
     (if \<not> truthy (of_env (accessToken a))
        then throw_io (Error ''LINKEDIN_ACCESS_TOKEN is not set in .env file'')
      else if \<not> truthy (of_env (personURN a))
        then throw_io (Error ''LINKEDIN_PERSON_URN is not set in .env file'')
      else return_io ())"

definition getHeaders :: "agent \<Rightarrow> (string \<times> jsval) list" where
  "getHeaders a =
     [(''Authorization'', JStr (''Bearer '' @ template (accessToken a))),
      (''Content-Type'', JStr ''application/json''),
      (''X-Restli-Protocol-Version'', JStr ''2.0.0''),
      (''LinkedIn-Version'', JStr (apiVersion a))]"

definition handleError :: "js_error \<Rightarrow> 'a io" where
  "handleError error =
     bind_io
       (if truthy (response error) then
          bind_io (console_error [JStr ''LinkedIn API Error:'']) (\<lambda>_.
          bind_io (console_error [JStr ''Status:'', prop_of (response error) ''status'']) (\<lambda>_.
          console_error [JStr ''Message:'', prop_of (response error) ''data'']))
        else if truthy (request error) then
          bind_io (console_error [JStr ''No response received from LinkedIn API'']) (\<lambda>_.
          console_error [JStr (message error)])
        else
          console_error [JStr ''Error:'', JStr (message error)])
       (\<lambda>_. throw_io error)"

subsection \<open>Payloads\<close>

text \<open>The three object literals \<^verbatim>\<open>postData\<close>, with the variables they mention.\<close>

definition textPostData :: "agent \<Rightarrow> jsval \<Rightarrow> jsval \<Rightarrow> jsval" where
  "textPostData a text visibility =
     JObj [
       (''author'', of_env (personURN a)),
       (''lifecycleState'', JStr ''PUBLISHED''),
       (''specificContent'', JObj [
          (''com.linkedin.ugc.ShareContent'', JObj [
             (''shareCommentary'', JObj [(''text'', text)]),
             (''shareMediaCategory'', JStr ''NONE'')])]),
       (''visibility'', JObj [
          (''com.linkedin.ugc.MemberNetworkVisibility'', visibility)])]"

definition articlePostData :: "agent \<Rightarrow> jsval \<Rightarrow> jsval \<Rightarrow> jsval \<Rightarrow> jsval \<Rightarrow> jsval \<Rightarrow> jsval" where
  "articlePostData a text articleUrl articleTitle articleDescription visibility =
     JObj [
       (''author'', of_env (personURN a)),
       (''lifecycleState'', JStr ''PUBLISHED''),
       (''specificContent'', JObj [
          (''com.linkedin.ugc.ShareContent'', JObj [
             (''shareCommentary'', JObj [(''text'', text)]),
             (''shareMediaCategory'', JStr ''ARTICLE''),
             (''media'', JArr [JObj [
                (''status'', JStr ''READY''),
                (''originalUrl'', articleUrl),
                (''title'', JObj [(''text'', articleTitle)]),
                (''description'', JObj [(''text'', articleDescription)])]])])]),
       (''visibility'', JObj [
          (''com.linkedin.ugc.MemberNetworkVisibility'', visibility)])]"

definition imagePostData :: "agent \<Rightarrow> jsval \<Rightarrow> jsval \<Rightarrow> jsval \<Rightarrow> jsval" where
  "imagePostData a text asset visibility =
     JObj [
       (''author'', of_env (personURN a)),
       (''lifecycleState'', JStr ''PUBLISHED''),
       (''specificContent'', JObj [
          (''com.linkedin.ugc.ShareContent'', JObj [
             (''shareCommentary'', JObj [(''text'', text)]),
             (''shareMediaCategory'', JStr ''IMAGE''),
             (''media'', JArr [JObj [
                (''status'', JStr ''READY''),
                (''media'', asset)]])])]),
       (''visibility'', JObj [
          (''com.linkedin.ugc.MemberNetworkVisibility'', visibility)])]"

definition registerData :: "agent \<Rightarrow> jsval" where
  "registerData a =
     JObj [
       (''registerUploadRequest'', JObj [
          (''recipes'', JArr [JStr ''urn:li:digitalmediaRecipe:feedshare-image'']),
          (''owner'', of_env (personURN a)),
          (''serviceRelationships'', JArr [JObj [
             (''relationshipType'', JStr ''OWNER''),
             (''identifier'', JStr ''urn:li:userGeneratedContent'')]])])]"

subsection \<open>Publisher operations\<close>

text \<open>
  The tail shared by the three posting methods after \<^verbatim>\<open>axios.post\<close> has resolved: two
  log lines, the second of which reads \<^verbatim>\<open>response.data.id\<close>, then \<^verbatim>\<open>return response.data\<close>.
\<close>

definition report_posted :: "string \<Rightarrow> jsval \<Rightarrow> jsval io" where
  "report_posted headline data =
     bind_io (console_log [JStr headline]) (\<lambda>_.
     bind_io (eval_io (get_prop data ''id'')) (\<lambda>ident.
     bind_io (console_log [JStr ''Post ID:'', ident]) (\<lambda>_.
     return_io data)))"

definition postTextUpdate :: "world \<Rightarrow> agent \<Rightarrow> jsval \<Rightarrow> jsval \<Rightarrow> jsval io" where
  "postTextUpdate w a text visibility0 =
     (let visibility = default_param visibility0 (JStr ''PUBLIC'') in
      try_catch
        (bind_io (validateConfig a) (\<lambda>_.
         bind_io (axios_post w (JStr (baseURL a @ ''/ugcPosts''))
                    (textPostData a text visibility) (getHeaders a)) (\<lambda>data.
         report_posted ''Successfully posted to LinkedIn!'' data)))
        handleError)"

definition postArticle ::
  "world \<Rightarrow> agent \<Rightarrow> jsval \<Rightarrow> jsval \<Rightarrow> jsval \<Rightarrow> jsval \<Rightarrow> jsval \<Rightarrow> jsval io" where
  "postArticle w a text articleUrl articleTitle articleDescription visibility0 =
     (let visibility = default_param visibility0 (JStr ''PUBLIC'') in
      try_catch
        (bind_io (validateConfig a) (\<lambda>_.
         bind_io (axios_post w (JStr (baseURL a @ ''/ugcPosts''))
                    (articlePostData a text articleUrl articleTitle articleDescription visibility)
                    (getHeaders a)) (\<lambda>data.
         report_posted ''Successfully posted article to LinkedIn!'' data)))
        handleError)"

definition registerImageUpload :: "world \<Rightarrow> agent \<Rightarrow> jsval io" where
  "registerImageUpload w a =
     axios_post w (JStr ''https://api.linkedin.com/v2/assets?action=registerUpload'')
       (registerData a) (getHeaders a)"

definition uploadImage :: "world \<Rightarrow> agent \<Rightarrow> jsval \<Rightarrow> jsval \<Rightarrow> unit io" where
  "uploadImage w a uploadUrl imagePath =
     bind_io (fs_readFileSync w imagePath) (\<lambda>imageBuffer.
     bind_io (axios_put w uploadUrl (JBuffer imageBuffer)
                [(''Authorization'', JStr (''Bearer '' @ template (accessToken a))),
                 (''Content-Type'', JStr ''application/octet-stream'')]) (\<lambda>_.
     return_io ()))"

text \<open>
  The two reads of the registration response at the head of \<^verbatim>\<open>postImage\<close>:
  \<^verbatim>\<open>r.value.uploadMechanism[...].uploadUrl\<close>, then \<^verbatim>\<open>r.value.asset\<close>.
\<close>

definition upload_target :: "jsval \<Rightarrow> js_error + jsval \<times> jsval" where
  "upload_target r =
     (case get_prop r ''value'' of Inl e \<Rightarrow> Inl e | Inr v \<Rightarrow>
     (case get_prop v ''uploadMechanism'' of Inl e \<Rightarrow> Inl e | Inr um \<Rightarrow>
     (case get_prop um ''com.linkedin.digitalmedia.uploading.MediaUploadHttpRequest'' of
        Inl e \<Rightarrow> Inl e | Inr req \<Rightarrow>
     (case get_prop req ''uploadUrl'' of Inl e \<Rightarrow> Inl e | Inr uploadUrl \<Rightarrow>
     (case get_prop r ''value'' of Inl e \<Rightarrow> Inl e | Inr v' \<Rightarrow>
     (case get_prop v' ''asset'' of Inl e \<Rightarrow> Inl e | Inr asset \<Rightarrow>
        Inr (uploadUrl, asset)))))))"

definition postImage :: "world \<Rightarrow> agent \<Rightarrow> jsval \<Rightarrow> jsval \<Rightarrow> jsval \<Rightarrow> jsval io" where
  "postImage w a text imagePath visibility0 =
     (let visibility = default_param visibility0 (JStr ''PUBLIC'') in
      try_catch
        (bind_io (validateConfig a) (\<lambda>_.
         bind_io (registerImageUpload w a) (\<lambda>registerUploadResponse.
         bind_io (eval_io (upload_target registerUploadResponse)) (\<lambda>(uploadUrl, asset).
         bind_io (uploadImage w a uploadUrl imagePath) (\<lambda>_.
         bind_io (axios_post w (JStr (baseURL a @ ''/ugcPosts''))
                    (imagePostData a text asset visibility) (getHeaders a)) (\<lambda>data.
         report_posted ''Successfully posted image to LinkedIn!'' data))))))
        handleError)"

definition getUserProfile :: "world \<Rightarrow> agent \<Rightarrow> jsval io" where
  "getUserProfile w a =
     try_catch
       (bind_io (validateConfig a) (\<lambda>_.
        bind_io (axios_get w (JStr (baseURL a @ ''/me'')) (getHeaders a)) (\<lambda>data.
        bind_io (console_log [JStr ''User Profile:'', data]) (\<lambda>_.
        return_io data))))
       handleError"

subsection \<open>Scheduler\<close>

text \<open>
  The callback handed to \<^verbatim>\<open>schedule.scheduleJob\<close>: what runs when the timer library
  invokes the job. It has no \<^verbatim>\<open>try\<close> of its own.
\<close>

definition job_body :: "world \<Rightarrow> agent \<Rightarrow> jsval \<Rightarrow> unit io" where
  "job_body w a postConfig =
     bind_io (console_log [JStr ''Executing scheduled post...'']) (\<lambda>_.
     bind_io (eval_io (get_prop postConfig ''type'')) (\<lambda>ty.
       if ty = JStr ''text'' then
         bind_io (postTextUpdate w a (prop_of postConfig ''text'')
                    (prop_of postConfig ''visibility'')) (\<lambda>_. return_io ())
       else if ty = JStr ''article'' then
         bind_io (postArticle w a (prop_of postConfig ''text'')
                    (prop_of postConfig ''articleUrl'') (prop_of postConfig ''articleTitle'')
                    (prop_of postConfig ''articleDescription'')
                    (prop_of postConfig ''visibility'')) (\<lambda>_. return_io ())
       else if ty = JStr ''image'' then
         bind_io (postImage w a (prop_of postConfig ''text'') (prop_of postConfig ''imagePath'')
                    (prop_of postConfig ''visibility'')) (\<lambda>_. return_io ())
       else return_io ()))"

text \<open>
  \<^verbatim>\<open>schedulePost\<close> logs, registers the callback with the timer library and returns
  what the library returned. The event \<open>ScheduleJob t c\<close> stands for the call
  \<^verbatim>\<open>schedule.scheduleJob(t, callback)\<close> with the callback closed over \<open>c\<close>.
\<close>

definition schedulePost :: "world \<Rightarrow> agent \<Rightarrow> jsval \<Rightarrow> date \<Rightarrow> event list \<Rightarrow> job \<times> event list" where
  "schedulePost w a postConfig scheduledTime tr =
     (let tr1 = tr @ [ConsoleLog [JStr (''Post scheduled for '' @ dateString w scheduledTime)]]
      in (scheduleJob w tr1 scheduledTime, tr1 @ [ScheduleJob scheduledTime postConfig]))"

section \<open>Vocabulary of the statements\<close>

text \<open>
  The lines \<^verbatim>\<open>handleError\<close> prints for an error, by the branch it takes; lemma
  \<open>handleError_run\<close> below shows that these are exactly the events it appends.
\<close>

definition diagnostic :: "js_error \<Rightarrow> event list" where
  "diagnostic error =
     (if truthy (response error) then
        [ConsoleError [JStr ''LinkedIn API Error:''],
         ConsoleError [JStr ''Status:'', prop_of (response error) ''status''],
         ConsoleError [JStr ''Message:'', prop_of (response error) ''data'']]
      else if truthy (request error) then
        [ConsoleError [JStr ''No response received from LinkedIn API''],
         ConsoleError [JStr (message error)]]
      else
        [ConsoleError [JStr ''Error:'', JStr (message error)]])"

text \<open>Both credentials are present and non-empty: \<^verbatim>\<open>validateConfig\<close> does not throw.\<close>

definition valid :: "agent \<Rightarrow> bool" where
  "valid a = (truthy (of_env (accessToken a)) \<and> truthy (of_env (personURN a)))"

text \<open>The three requests of the agent, as the calls of \<^verbatim>\<open>axios\<close> build them.\<close>

definition createRequest :: "agent \<Rightarrow> jsval \<Rightarrow> http_request" where
  "createRequest a payload =
     \<lparr>meth = POST, url = JStr (baseURL a @ ''/ugcPosts''), body = payload,
      headers = getHeaders a\<rparr>"

definition registerRequest :: "agent \<Rightarrow> http_request" where
  "registerRequest a =
     \<lparr>meth = POST, url = JStr ''https://api.linkedin.com/v2/assets?action=registerUpload'',
      body = registerData a, headers = getHeaders a\<rparr>"

definition uploadRequest :: "agent \<Rightarrow> jsval \<Rightarrow> string \<Rightarrow> http_request" where
  "uploadRequest a uploadUrl imageBuffer =
     \<lparr>meth = PUT, url = uploadUrl, body = JBuffer imageBuffer,
      headers = [(''Authorization'', JStr (''Bearer '' @ template (accessToken a))),
                 (''Content-Type'', JStr ''application/octet-stream'')]\<rparr>"

definition profileRequest :: "agent \<Rightarrow> http_request" where
  "profileRequest a =
     \<lparr>meth = GET, url = JStr (baseURL a @ ''/me''), body = JUndefined, headers = getHeaders a\<rparr>"


text \<open>Reading a document along a path of property names.\<close>

fun at_path :: "jsval \<Rightarrow> string list \<Rightarrow> jsval" where
  "at_path v [] = v"
| "at_path v (k # ks) = at_path (prop_of v k) ks"

text \<open>
  The errors with which the world answered the library calls among the events \<open>es\<close>,
  issued after the trace \<open>tr\<close>: each request and each file read is put to the world
  again, at the trace at which the operation issued it.
\<close>

fun library_errors :: "world \<Rightarrow> event list \<Rightarrow> event list \<Rightarrow> js_error list" where
  "library_errors w tr [] = []"
| "library_errors w tr (Http r # es) =
     (case axios w tr r of Inl e \<Rightarrow> [e] | Inr d \<Rightarrow> []) @ library_errors w (tr @ [Http r]) es"
| "library_errors w tr (ReadFile p # es) =
     (case readFileSync w tr p of Inl e \<Rightarrow> [e] | Inr b \<Rightarrow> [])
       @ library_errors w (tr @ [ReadFile p]) es"
| "library_errors w tr (ev # es) = library_errors w (tr @ [ev]) es"

subsection \<open>Concrete agents and worlds\<close>

definition demo_agent :: agent where
  "demo_agent = LinkedInAgent (Some ''token'') (Some ''urn:li:person:42'')"

definition registered :: jsval where
  "registered =
     JObj [(''value'', JObj [
        (''uploadMechanism'', JObj [
           (''com.linkedin.digitalmedia.uploading.MediaUploadHttpRequest'',
            JObj [(''uploadUrl'', JStr ''https://u'')])]),
        (''asset'', JStr ''urn:li:digitalmediaAsset:1'')])]"

text \<open>
  A server that registers every upload with the same answer, accepts every upload and
  creates every post; the image file is readable.
\<close>

definition stub_world :: world where
  "stub_world =
     \<lparr>axios = (\<lambda>tr r.
        if url r = JStr ''https://api.linkedin.com/v2/assets?action=registerUpload''
          then Inr registered
        else if meth r = PUT then Inr (JStr [])
        else Inr (JObj [(''id'', JStr ''urn:li:share:2'')])),
      readFileSync = (\<lambda>tr p. Inr ''JFIF''),
      scheduleJob = (\<lambda>tr t. Some 0),
      dateString = (\<lambda>t. ''Tue Nov 10 2025'')\<rparr>"

text \<open>An agent for the same member, holding a different token.\<close>

definition other_agent :: agent where
  "other_agent = LinkedInAgent (Some ''another token'') (Some ''urn:li:person:42'')"

text \<open>The same server, with no file at the image path.\<close>

definition enoent :: js_error where
  "enoent = Error ''ENOENT: no such file or directory''"

definition no_file_world :: world where
  "no_file_world = stub_world\<lparr>readFileSync := (\<lambda>tr p. Inl enoent)\<rparr>"

text \<open>The same server, refusing every upload with status 400.\<close>

definition bad_request :: js_error where
  "bad_request =
     \<lparr>name = ''AxiosError'', message = ''Request failed with status code 400'',
      response = JObj [(''status'', JNum 400), (''data'', JStr ''bad upload'')],
      request = JObj []\<rparr>"

definition upload_refused_world :: world where
  "upload_refused_world =
     stub_world\<lparr>axios := (\<lambda>tr r. if meth r = PUT then Inl bad_request else axios stub_world tr r)\<rparr>"

text \<open>No network: every request is sent and never answered.\<close>

definition no_response :: js_error where
  "no_response =
     \<lparr>name = ''AxiosError'', message = ''getaddrinfo ENOTFOUND api.linkedin.com'',
      response = JUndefined, request = JObj []\<rparr>"

definition offline_world :: world where
  "offline_world = stub_world\<lparr>axios := (\<lambda>tr r. Inl no_response)\<rparr>"

text \<open>A server that answers every request with status 200 and the body \<^verbatim>\<open>null\<close>.\<close>

definition null_body_world :: world where
  "null_body_world = stub_world\<lparr>axios := (\<lambda>tr r. Inr JNull)\<rparr>"

text \<open>
  A timer library that registers a job only if its fire time has not passed when the
  clock reads \<open>now\<close>, and answers \<^verbatim>\<open>null\<close> otherwise (as node-schedule does for a
  \<^verbatim>\<open>Date\<close> in the past). The two dates it can render are the epoch and the first day
  of 2100, in UTC.
\<close>

definition timer_world :: "date \<Rightarrow> world" where
  "timer_world now =
     stub_world\<lparr>scheduleJob := (\<lambda>tr t. if now \<le> t then Some 0 else None),
                dateString := (\<lambda>t. if t = 0
                   then ''Thu Jan 01 1970 00:00:00 GMT+0000 (Coordinated Universal Time)''
                   else ''Fri Jan 01 2100 00:00:00 GMT+0000 (Coordinated Universal Time)'')\<rparr>"

section \<open>How each operation runs\<close>

lemma http_calls_append: "http_calls (xs @ ys) = http_calls xs @ http_calls ys"
  by (induction xs rule: http_calls.induct) simp_all

lemma handleError_run: "handleError e tr = (Inl e, tr @ diagnostic e)"
  by (simp add: handleError_def diagnostic_def bind_io_def console_error_def throw_io_def)

lemma http_calls_diagnostic: "http_calls (diagnostic e) = []"
  by (simp add: diagnostic_def)

lemma report_posted_run:
  "report_posted h d tr =
     (case get_prop d ''id'' of
        Inl e \<Rightarrow> (Inl e, tr @ [ConsoleLog [JStr h]])
      | Inr i \<Rightarrow> (Inr d, tr @ [ConsoleLog [JStr h], ConsoleLog [JStr ''Post ID:'', i]]))"
  by (simp add: report_posted_def bind_io_def console_log_def eval_io_def return_io_def
      split: sum.splits)

lemma validateConfig_run:
  "validateConfig a tr =
     (if \<not> truthy (of_env (accessToken a))
        then (Inl (Error ''LINKEDIN_ACCESS_TOKEN is not set in .env file''), tr)
      else if \<not> truthy (of_env (personURN a))
        then (Inl (Error ''LINKEDIN_PERSON_URN is not set in .env file''), tr)
      else (Inr (), tr))"
  by (simp add: validateConfig_def throw_io_def return_io_def)

lemma validateConfig_valid: "valid a \<Longrightarrow> validateConfig a tr = (Inr (), tr)"
  by (simp add: validateConfig_run valid_def)

lemma axios_post_run:
  "axios_post w u d hs tr =
     (axios w tr \<lparr>meth = POST, url = u, body = d, headers = hs\<rparr>,
      tr @ [Http \<lparr>meth = POST, url = u, body = d, headers = hs\<rparr>])"
  by (simp add: axios_post_def axios_request_def)

lemma postTextUpdate_run:
  assumes "valid a"
  shows "postTextUpdate w a text v tr =
     (let r = createRequest a (textPostData a text (default_param v (JStr ''PUBLIC'')));
          tr1 = tr @ [Http r] in
      case axios w tr r of
        Inl e \<Rightarrow> (Inl e, tr1 @ diagnostic e)
      | Inr d \<Rightarrow>
         (case get_prop d ''id'' of
            Inl e \<Rightarrow>
              (Inl e, tr1 @ [ConsoleLog [JStr ''Successfully posted to LinkedIn!'']] @ diagnostic e)
          | Inr i \<Rightarrow>
              (Inr d, tr1 @ [ConsoleLog [JStr ''Successfully posted to LinkedIn!''],
                             ConsoleLog [JStr ''Post ID:'', i]])))"
  using assms
  by (simp add: postTextUpdate_def Let_def try_catch_def bind_io_def validateConfig_valid
      axios_post_run createRequest_def report_posted_run handleError_run
      split: sum.splits)

lemma postArticle_run:
  assumes "valid a"
  shows "postArticle w a text u ti de v tr =
     (let r = createRequest a (articlePostData a text u ti de (default_param v (JStr ''PUBLIC'')));
          tr1 = tr @ [Http r] in
      case axios w tr r of
        Inl e \<Rightarrow> (Inl e, tr1 @ diagnostic e)
      | Inr d \<Rightarrow>
         (case get_prop d ''id'' of
            Inl e \<Rightarrow>
              (Inl e, tr1 @ [ConsoleLog [JStr ''Successfully posted article to LinkedIn!'']]
                        @ diagnostic e)
          | Inr i \<Rightarrow>
              (Inr d, tr1 @ [ConsoleLog [JStr ''Successfully posted article to LinkedIn!''],
                             ConsoleLog [JStr ''Post ID:'', i]])))"
  using assms
  by (simp add: postArticle_def Let_def try_catch_def bind_io_def validateConfig_valid
      axios_post_run createRequest_def report_posted_run handleError_run
      split: sum.splits)

lemma getUserProfile_run:
  assumes "valid a"
  shows "getUserProfile w a tr =
     (case axios w tr (profileRequest a) of
        Inl e \<Rightarrow> (Inl e, tr @ [Http (profileRequest a)] @ diagnostic e)
      | Inr d \<Rightarrow> (Inr d, tr @ [Http (profileRequest a), ConsoleLog [JStr ''User Profile:'', d]]))"
  using assms
  by (simp add: getUserProfile_def try_catch_def bind_io_def validateConfig_valid
      axios_get_def axios_request_def profileRequest_def handleError_run console_log_def
      return_io_def split: sum.splits)

lemma uploadImage_run:
  "uploadImage w a u p tr =
     (case readFileSync w tr p of
        Inl e \<Rightarrow> (Inl e, tr @ [ReadFile p])
      | Inr buf \<Rightarrow>
         (case axios w (tr @ [ReadFile p]) (uploadRequest a u buf) of
            Inl e \<Rightarrow> (Inl e, tr @ [ReadFile p, Http (uploadRequest a u buf)])
          | Inr x \<Rightarrow> (Inr (), tr @ [ReadFile p, Http (uploadRequest a u buf)])))"
  by (simp add: uploadImage_def bind_io_def fs_readFileSync_def axios_put_def axios_request_def
      uploadRequest_def return_io_def split: sum.splits)

lemma invalid_run:
  assumes "\<not> valid a"
  shows "postTextUpdate w a text v tr = handleError (if \<not> truthy (of_env (accessToken a))
            then Error ''LINKEDIN_ACCESS_TOKEN is not set in .env file''
            else Error ''LINKEDIN_PERSON_URN is not set in .env file'') tr"
    and "postArticle w a text u ti de v tr = handleError (if \<not> truthy (of_env (accessToken a))
            then Error ''LINKEDIN_ACCESS_TOKEN is not set in .env file''
            else Error ''LINKEDIN_PERSON_URN is not set in .env file'') tr"
    and "postImage w a text p v tr = handleError (if \<not> truthy (of_env (accessToken a))
            then Error ''LINKEDIN_ACCESS_TOKEN is not set in .env file''
            else Error ''LINKEDIN_PERSON_URN is not set in .env file'') tr"
    and "getUserProfile w a tr = handleError (if \<not> truthy (of_env (accessToken a))
            then Error ''LINKEDIN_ACCESS_TOKEN is not set in .env file''
            else Error ''LINKEDIN_PERSON_URN is not set in .env file'') tr"
  using assms
  by (simp_all add: postTextUpdate_def postArticle_def postImage_def getUserProfile_def Let_def
      try_catch_def bind_io_def validateConfig_run valid_def)

lemma postImage_run:
  assumes "valid a"
  shows "postImage w a text p v tr =
     (let reg = registerRequest a; tr1 = tr @ [Http reg] in
      case axios w tr reg of
        Inl e \<Rightarrow> (Inl e, tr1 @ diagnostic e)
      | Inr d \<Rightarrow>
         (case upload_target d of
            Inl e \<Rightarrow> (Inl e, tr1 @ diagnostic e)
          | Inr (u, asset) \<Rightarrow>
             (case uploadImage w a u p tr1 of
                (Inl e, tr2) \<Rightarrow> (Inl e, tr2 @ diagnostic e)
              | (Inr x, tr2) \<Rightarrow>
                 (let cr = createRequest a
                             (imagePostData a text asset (default_param v (JStr ''PUBLIC'')));
                      tr3 = tr2 @ [Http cr] in
                  case axios w tr2 cr of
                    Inl e \<Rightarrow> (Inl e, tr3 @ diagnostic e)
                  | Inr d2 \<Rightarrow>
                     (case get_prop d2 ''id'' of
                        Inl e \<Rightarrow>
                          (Inl e, tr3 @ [ConsoleLog [JStr ''Successfully posted image to LinkedIn!'']]
                                    @ diagnostic e)
                      | Inr i \<Rightarrow>
                          (Inr d2, tr3 @ [ConsoleLog [JStr ''Successfully posted image to LinkedIn!''],
                                          ConsoleLog [JStr ''Post ID:'', i]]))))))"
  using assms
  by (simp add: postImage_def Let_def try_catch_def bind_io_def validateConfig_valid
      registerImageUpload_def axios_post_run createRequest_def registerRequest_def
      report_posted_run handleError_run eval_io_def
      split: sum.splits prod.splits)

section \<open>Payloads\<close>

text \<open>
  Claim C6. For every text \<open>T\<close> and every visibility \<open>V\<close> passed to \<^verbatim>\<open>postTextUpdate\<close>
  (an argument that is given, that is, not \<^verbatim>\<open>undefined\<close>, for which the default
  \<^verbatim>\<open>'PUBLIC'\<close> would stand in), the only request of the operation carries a payload whose
  author is the actor URN, whose lifecycle state is \<^verbatim>\<open>PUBLISHED\<close>, whose commentary text is
  exactly \<open>T\<close>, whose media category is the no-media marker \<^verbatim>\<open>NONE\<close> (with no media
  list), and whose visibility block holds exactly \<open>V\<close>.
\<close>

theorem postTextUpdate_payload:
  assumes "valid a" and "visibility \<noteq> JUndefined"
  shows "let p = textPostData a text visibility in
           http_calls (snd (postTextUpdate w a text visibility tr))
             = http_calls tr @ [createRequest a p]
         \<and> at_path p [''author''] = of_env (personURN a)
         \<and> at_path p [''lifecycleState''] = JStr ''PUBLISHED''
         \<and> at_path p [''specificContent'', ''com.linkedin.ugc.ShareContent'',
                         ''shareCommentary'', ''text''] = text
         \<and> at_path p [''specificContent'', ''com.linkedin.ugc.ShareContent'',
                         ''shareMediaCategory''] = JStr ''NONE''
         \<and> at_path p [''specificContent'', ''com.linkedin.ugc.ShareContent'',
                         ''media''] = JUndefined
         \<and> at_path p [''visibility'', ''com.linkedin.ugc.MemberNetworkVisibility''] = visibility"
proof -
  have calls: "http_calls (snd (postTextUpdate w a text visibility tr))
                 = http_calls tr @ [createRequest a (textPostData a text visibility)]"
    using assms
    by (simp add: postTextUpdate_run default_param_def Let_def http_calls_append
        http_calls_diagnostic split: sum.splits)
  have fields: "at_path (textPostData a text visibility) [''author''] = of_env (personURN a)"
    "at_path (textPostData a text visibility) [''lifecycleState''] = JStr ''PUBLISHED''"
    "at_path (textPostData a text visibility) [''specificContent'', ''com.linkedin.ugc.ShareContent'',
                         ''shareCommentary'', ''text''] = text"
    "at_path (textPostData a text visibility) [''specificContent'', ''com.linkedin.ugc.ShareContent'',
                         ''shareMediaCategory''] = JStr ''NONE''"
    "at_path (textPostData a text visibility) [''specificContent'', ''com.linkedin.ugc.ShareContent'',
                         ''media''] = JUndefined"
    "at_path (textPostData a text visibility) [''visibility'', ''com.linkedin.ugc.MemberNetworkVisibility''] = visibility"
    by (simp_all add: textPostData_def)
  show ?thesis
    unfolding Let_def using calls fields by simp
qed

theorem postTextUpdate_payload_witness:
  "valid demo_agent \<and> JStr ''CONNECTIONS'' \<noteq> JUndefined
   \<and> http_calls (snd (postTextUpdate stub_world demo_agent (JStr ''T'') (JStr ''CONNECTIONS'') []))
       = [createRequest demo_agent (textPostData demo_agent (JStr ''T'') (JStr ''CONNECTIONS''))]
   \<and> at_path (textPostData demo_agent (JStr ''T'') (JStr ''CONNECTIONS''))
        [''visibility'', ''com.linkedin.ugc.MemberNetworkVisibility''] = JStr ''CONNECTIONS''
   \<and> at_path (textPostData demo_agent (JStr ''T'') (JStr ''CONNECTIONS''))
        [''specificContent'', ''com.linkedin.ugc.ShareContent'', ''shareMediaCategory'']
        = JStr ''NONE''"
proof -
  have v: "valid demo_agent"
    by (simp add: valid_def demo_agent_def LinkedInAgent_def)
  have n: "JStr ''CONNECTIONS'' \<noteq> JUndefined"
    by simp
  show ?thesis
    using v n postTextUpdate_payload [OF v n, of "JStr ''T''" stub_world "[]"]
    by (simp add: Let_def)
qed

text \<open>
  Claim C7. For every article post, the payload that \<^verbatim>\<open>postArticle\<close> submits has media
  category \<^verbatim>\<open>ARTICLE\<close> and a media list of exactly one entry, which carries the
  article URL, the title and the description that were supplied, with status \<^verbatim>\<open>READY\<close>.
\<close>

theorem postArticle_payload:
  assumes "valid a"
  shows "let v = default_param visibility (JStr ''PUBLIC'');
             p = articlePostData a text articleUrl articleTitle articleDescription v;
             content = at_path p [''specificContent'', ''com.linkedin.ugc.ShareContent''] in
           http_calls (snd (postArticle w a text articleUrl articleTitle articleDescription
                              visibility tr))
             = http_calls tr @ [createRequest a p]
         \<and> at_path content [''shareMediaCategory''] = JStr ''ARTICLE''
         \<and> at_path content [''media''] =
             JArr [JObj [(''status'', JStr ''READY''),
                         (''originalUrl'', articleUrl),
                         (''title'', JObj [(''text'', articleTitle)]),
                         (''description'', JObj [(''text'', articleDescription)])]]
         \<and> (\<exists>entry. at_path content [''media''] = JArr [entry]
               \<and> at_path entry [''status''] = JStr ''READY''
               \<and> at_path entry [''originalUrl''] = articleUrl
               \<and> at_path entry [''title'', ''text''] = articleTitle
               \<and> at_path entry [''description'', ''text''] = articleDescription)"
proof -
  let ?p = "articlePostData a text articleUrl articleTitle articleDescription
              (default_param visibility (JStr ''PUBLIC''))"
  have calls: "http_calls (snd (postArticle w a text articleUrl articleTitle articleDescription
                                  visibility tr))
                 = http_calls tr @ [createRequest a ?p]"
    using assms
    by (simp add: postArticle_run Let_def http_calls_append http_calls_diagnostic
        split: sum.splits)
  have fields:
    "at_path (at_path ?p [''specificContent'', ''com.linkedin.ugc.ShareContent''])
       [''shareMediaCategory''] = JStr ''ARTICLE''"
    "at_path (at_path ?p [''specificContent'', ''com.linkedin.ugc.ShareContent'']) [''media''] =
       JArr [JObj [(''status'', JStr ''READY''),
                   (''originalUrl'', articleUrl),
                   (''title'', JObj [(''text'', articleTitle)]),
                   (''description'', JObj [(''text'', articleDescription)])]]"
    by (simp_all add: articlePostData_def)
  show ?thesis
    unfolding Let_def using calls fields by simp
qed

theorem postArticle_payload_witness:
  "valid demo_agent
   \<and> at_path (articlePostData demo_agent (JStr ''Must read'') (JStr ''https://example.com/a'')
        (JStr ''Title'') (JStr ''About'') (JStr ''PUBLIC''))
        [''specificContent'', ''com.linkedin.ugc.ShareContent'', ''media'']
       = JArr [JObj [(''status'', JStr ''READY''),
                     (''originalUrl'', JStr ''https://example.com/a''),
                     (''title'', JObj [(''text'', JStr ''Title'')]),
                     (''description'', JObj [(''text'', JStr ''About'')])]]
   \<and> http_calls (snd (postArticle stub_world demo_agent (JStr ''Must read'')
        (JStr ''https://example.com/a'') (JStr ''Title'') (JStr ''About'') JUndefined []))
       = [createRequest demo_agent (articlePostData demo_agent (JStr ''Must read'')
            (JStr ''https://example.com/a'') (JStr ''Title'') (JStr ''About'') (JStr ''PUBLIC''))]"
proof -
  have v: "valid demo_agent"
    by (simp add: valid_def demo_agent_def LinkedInAgent_def)
  show ?thesis
    using v postArticle_payload [OF v, of JUndefined "JStr ''Must read''"
        "JStr ''https://example.com/a''" "JStr ''Title''" "JStr ''About''" stub_world "[]"]
    by (simp add: Let_def default_param_def)
qed

section \<open>Credential validation\<close>

text \<open>
  Claim C2. When the access token or the actor URN is missing or empty, each of
  \<^verbatim>\<open>postTextUpdate\<close>, \<^verbatim>\<open>postArticle\<close>, \<^verbatim>\<open>postImage\<close> and \<^verbatim>\<open>getUserProfile\<close>
  fails with the configuration error of \<^verbatim>\<open>validateConfig\<close>, and all it has done by then
  is to print that error: no request is sent (and no file is read), so validation comes
  before everything else the operation does.
\<close>

theorem invalid_credentials_no_network:
  assumes "accessToken a = None \<or> accessToken a = Some [] \<or>
           personURN a = None \<or> personURN a = Some []"
  shows "let e = (if accessToken a = None \<or> accessToken a = Some []
                    then Error ''LINKEDIN_ACCESS_TOKEN is not set in .env file''
                    else Error ''LINKEDIN_PERSON_URN is not set in .env file'');
             failed = (Inl e, tr @ [ConsoleError [JStr ''Error:'', JStr (message e)]]) in
           postTextUpdate w a text visibility tr = failed
         \<and> postArticle w a text articleUrl articleTitle articleDescription visibility tr = failed
         \<and> postImage w a text imagePath visibility tr = failed
         \<and> getUserProfile w a tr = failed
         \<and> http_calls (snd failed) = http_calls tr"
proof -
  have tok: "(\<not> truthy (of_env (accessToken a)))
               = (accessToken a = None \<or> accessToken a = Some [])"
    by (cases "accessToken a") simp_all
  have urn: "(\<not> truthy (of_env (personURN a)))
               = (personURN a = None \<or> personURN a = Some [])"
    by (cases "personURN a") simp_all
  have inv: "\<not> valid a"
    using assms by (simp add: valid_def tok urn)
  have diag: "diagnostic (Error m) = [ConsoleError [JStr ''Error:'', JStr m]]" for m
    by (simp add: diagnostic_def Error_def)
  have msg: "message (Error m) = m" for m
    by (simp add: Error_def)
  show ?thesis
    unfolding Let_def invalid_run [OF inv] handleError_run tok
    by (simp add: diag msg http_calls_append)
qed

theorem invalid_credentials_no_network_witness:
  "(accessToken (LinkedInAgent (Some []) (Some ''urn:li:person:42'')) = None
      \<or> accessToken (LinkedInAgent (Some []) (Some ''urn:li:person:42'')) = Some []
      \<or> personURN (LinkedInAgent (Some []) (Some ''urn:li:person:42'')) = None
      \<or> personURN (LinkedInAgent (Some []) (Some ''urn:li:person:42'')) = Some [])
   \<and> postImage stub_world (LinkedInAgent (Some []) (Some ''urn:li:person:42''))
        (JStr ''caption'') (JStr ''/tmp/x.jpg'') (JStr ''PUBLIC'') []
       = (Inl (Error ''LINKEDIN_ACCESS_TOKEN is not set in .env file''),
          [ConsoleError [JStr ''Error:'', JStr ''LINKEDIN_ACCESS_TOKEN is not set in .env file'']])
   \<and> getUserProfile stub_world (LinkedInAgent (Some []) (Some ''urn:li:person:42'')) []
       = (Inl (Error ''LINKEDIN_ACCESS_TOKEN is not set in .env file''),
          [ConsoleError [JStr ''Error:'', JStr ''LINKEDIN_ACCESS_TOKEN is not set in .env file'']])"
proof -
  have h: "accessToken (LinkedInAgent (Some []) (Some ''urn:li:person:42'')) = None
      \<or> accessToken (LinkedInAgent (Some []) (Some ''urn:li:person:42'')) = Some []
      \<or> personURN (LinkedInAgent (Some []) (Some ''urn:li:person:42'')) = None
      \<or> personURN (LinkedInAgent (Some []) (Some ''urn:li:person:42'')) = Some []"
    by (simp add: LinkedInAgent_def)
  have t: "accessToken (LinkedInAgent (Some []) (Some ''urn:li:person:42'')) = Some []"
    by (simp add: LinkedInAgent_def)
  show ?thesis
    using h invalid_credentials_no_network [OF h, of "[]" stub_world "JStr ''caption''"
        "JStr ''PUBLIC''" JUndefined JUndefined JUndefined "JStr ''/tmp/x.jpg''"]
    by (simp add: Let_def t Error_def)
qed

subsection \<open>The requests of an image post\<close>




subsection \<open>Runs in the concrete worlds\<close>

lemma valid_demo_agent: "valid demo_agent"
  by (simp add: valid_def demo_agent_def LinkedInAgent_def)

lemma upload_target_registered:
  "upload_target registered = Inr (JStr ''https://u'', JStr ''urn:li:digitalmediaAsset:1'')"
  by (simp add: upload_target_def registered_def)

lemma stub_world_register:
  "axios stub_world tr (registerRequest a) = Inr registered"
  by (simp add: stub_world_def registerRequest_def)





lemma upload_refused_register:
  "axios upload_refused_world tr (registerRequest a) = Inr registered"
  by (simp add: upload_refused_world_def stub_world_register) (simp add: registerRequest_def)

lemma upload_refused_put:
  "axios upload_refused_world tr (uploadRequest a u b) = Inl bad_request"
  by (simp add: upload_refused_world_def uploadRequest_def)

lemma upload_refused_read: "readFileSync upload_refused_world tr p = Inr ''JFIF''"
  by (simp add: upload_refused_world_def stub_world_def)


lemma postImage_upload_refused:
  "postImage upload_refused_world demo_agent (JStr ''caption'') (JStr ''/tmp/x.jpg'')
     (JStr ''PUBLIC'') [] =
     (Inl bad_request,
      [Http (registerRequest demo_agent),
       ReadFile (JStr ''/tmp/x.jpg''),
       Http (uploadRequest demo_agent (JStr ''https://u'') ''JFIF''),
       ConsoleError [JStr ''LinkedIn API Error:''],
       ConsoleError [JStr ''Status:'', JNum 400],
       ConsoleError [JStr ''Message:'', JStr ''bad upload'']])"
  by (simp add: postImage_run [OF valid_demo_agent] uploadImage_run Let_def
      upload_refused_register upload_refused_put upload_refused_read upload_target_registered
      diagnostic_def bad_request_def)

lemma timer_world_fields:
  "scheduleJob (timer_world now) tr t = (if now \<le> t then Some 0 else None)"
  "dateString (timer_world now) t = (if t = 0
     then ''Thu Jan 01 1970 00:00:00 GMT+0000 (Coordinated Universal Time)''
     else ''Fri Jan 01 2100 00:00:00 GMT+0000 (Coordinated Universal Time)'')"
  by (simp_all add: timer_world_def)

lemma valid_other_agent: "valid other_agent"
  by (simp add: valid_def other_agent_def LinkedInAgent_def)

lemma same_urn: "personURN demo_agent = personURN other_agent"
  by (simp add: demo_agent_def other_agent_def LinkedInAgent_def)

lemma postTextUpdate_offline:
  "postTextUpdate offline_world demo_agent (JStr ''later'') JUndefined tr =
     (Inl no_response,
      tr @ [Http (createRequest demo_agent (textPostData demo_agent (JStr ''later'') (JStr ''PUBLIC''))),
            ConsoleError [JStr ''No response received from LinkedIn API''],
            ConsoleError [JStr ''getaddrinfo ENOTFOUND api.linkedin.com'']])"
  by (simp add: postTextUpdate_run [OF valid_demo_agent] Let_def offline_world_def
      default_param_def diagnostic_def no_response_def)

lemma postImage_no_file:
  "postImage no_file_world demo_agent (JStr ''caption'') (JStr ''/tmp/none.jpg'') JUndefined tr =
     (Inl enoent,
      tr @ [Http (registerRequest demo_agent), ReadFile (JStr ''/tmp/none.jpg'')]
         @ diagnostic enoent)"
  by (simp add: postImage_run [OF valid_demo_agent] uploadImage_run Let_def no_file_world_def
      stub_world_register upload_target_registered)

subsection \<open>Errors and payloads along a run\<close>

lemma library_errors_diagnostic: "library_errors w tr (diagnostic e) = []"
  by (simp add: diagnostic_def)

lemma ReadFile_diagnostic: "ReadFile p \<notin> set (diagnostic e)"
  by (simp add: diagnostic_def)

lemma try_catch_handleError:
  assumes "try_catch m handleError tr = (Inl e, tr')"
  shows "\<exists>before. tr' = before @ diagnostic e"
proof (cases "m tr")
  case (Pair r t)
  then show ?thesis
    using assms by (cases r) (auto simp add: try_catch_def handleError_run)
qed
lemma invalid_errors:
  "library_errors w tr (drop (length tr) (snd (handleError e tr))) = []"
  by (simp add: handleError_run library_errors_diagnostic)

lemma postTextUpdate_errors:
  "library_errors w tr (drop (length tr) (snd (postTextUpdate w a text v tr))) = []
   \<or> (\<exists>e. library_errors w tr (drop (length tr) (snd (postTextUpdate w a text v tr))) = [e]
          \<and> fst (postTextUpdate w a text v tr) = Inl e)"
proof (cases "valid a")
  case True
  show ?thesis
    unfolding postTextUpdate_run [OF True]
    by (simp add: Let_def library_errors_diagnostic split: sum.splits)
next
  case False
  show ?thesis
    unfolding invalid_run(1) [OF False] by (simp add: invalid_errors)
qed

lemma postArticle_errors:
  "library_errors w tr (drop (length tr) (snd (postArticle w a text u ti de v tr))) = []
   \<or> (\<exists>e. library_errors w tr (drop (length tr) (snd (postArticle w a text u ti de v tr))) = [e]
          \<and> fst (postArticle w a text u ti de v tr) = Inl e)"
proof (cases "valid a")
  case True
  show ?thesis
    unfolding postArticle_run [OF True]
    by (simp add: Let_def library_errors_diagnostic split: sum.splits)
next
  case False
  show ?thesis
    unfolding invalid_run(2) [OF False] by (simp add: invalid_errors)
qed

lemma getUserProfile_errors:
  "library_errors w tr (drop (length tr) (snd (getUserProfile w a tr))) = []
   \<or> (\<exists>e. library_errors w tr (drop (length tr) (snd (getUserProfile w a tr))) = [e]
          \<and> fst (getUserProfile w a tr) = Inl e)"
proof (cases "valid a")
  case True
  show ?thesis
    unfolding getUserProfile_run [OF True]
    by (simp add: Let_def library_errors_diagnostic split: sum.splits)
next
  case False
  show ?thesis
    unfolding invalid_run(4) [OF False] by (simp add: invalid_errors)
qed

lemma postImage_errors:
  "library_errors w tr (drop (length tr) (snd (postImage w a text p v tr))) = []
   \<or> (\<exists>e. library_errors w tr (drop (length tr) (snd (postImage w a text p v tr))) = [e]
          \<and> fst (postImage w a text p v tr) = Inl e)"
proof (cases "valid a")
  case True
  show ?thesis
    unfolding postImage_run [OF True]
    by (simp add: Let_def uploadImage_run library_errors_diagnostic
        split: sum.splits prod.splits)
next
  case False
  show ?thesis
    unfolding invalid_run(3) [OF False] by (simp add: invalid_errors)
qed

lemma publisher_logged:
  assumes "run = postTextUpdate w a text visibility tr
         \<or> run = postArticle w a text articleUrl articleTitle articleDescription visibility tr
         \<or> run = postImage w a text imagePath visibility tr
         \<or> run = getUserProfile w a tr"
    and "fst run = Inl e"
  shows "\<exists>before. snd run = before @ diagnostic e"
proof -
  obtain m where m: "run = try_catch m handleError tr"
    using assms(1)
    by (auto simp add: postTextUpdate_def postArticle_def postImage_def getUserProfile_def
        Let_def)
  have "try_catch m handleError tr = (Inl e, snd run)"
    using assms(2) m by (metis prod.collapse)
  then show ?thesis
    by (rule try_catch_handleError)
qed

lemma postData_urn:
  assumes "personURN a1 = personURN a2"
  shows "textPostData a1 = textPostData a2"
    and "articlePostData a1 = articlePostData a2"
    and "imagePostData a1 = imagePostData a2"
  using assms by (simp_all add: fun_eq_iff textPostData_def articlePostData_def imagePostData_def)

lemma postTextUpdate_first:
  assumes "valid a"
  shows "\<exists>rest. snd (postTextUpdate w a text v tr) =
           tr @ Http (createRequest a (textPostData a text (default_param v (JStr ''PUBLIC''))))
                # rest"
  unfolding postTextUpdate_run [OF assms]
  by (simp add: Let_def split: sum.splits)

lemma postArticle_first:
  assumes "valid a"
  shows "\<exists>rest. snd (postArticle w a text u ti de v tr) =
           tr @ Http (createRequest a
                        (articlePostData a text u ti de (default_param v (JStr ''PUBLIC''))))
                # rest"
  unfolding postArticle_run [OF assms]
  by (simp add: Let_def split: sum.splits)

lemma postImage_after_upload:
  assumes "valid a"
    and "axios w tr (registerRequest a) = Inr d"
    and "upload_target d = Inr (u, asset)"
    and "uploadImage w a u p (tr @ [Http (registerRequest a)]) = (Inr (), mid)"
  shows "\<exists>rest. snd (postImage w a text p v tr) =
           mid @ Http (createRequest a
                         (imagePostData a text asset (default_param v (JStr ''PUBLIC''))))
                 # rest"
  unfolding postImage_run [OF assms(1)] using assms(2-4)
  by (simp add: Let_def split: sum.splits)
lemma invalid_token_result:
  assumes "run = postTextUpdate w a text visibility tr
         \<or> run = postArticle w a text articleUrl articleTitle articleDescription visibility tr
         \<or> run = postImage w a text imagePath visibility tr
         \<or> run = getUserProfile w a tr"
    and "\<not> truthy (of_env (accessToken a))"
  shows "fst run = Inl (Error ''LINKEDIN_ACCESS_TOKEN is not set in .env file'')"
proof -
  have inv: "\<not> valid a"
    using assms(2) by (simp add: valid_def)
  show ?thesis
    using assms(1) by (auto simp add: invalid_run [OF inv] handleError_run assms(2))
qed

lemma invalid_urn_result:
  assumes "run = postTextUpdate w a text visibility tr
         \<or> run = postArticle w a text articleUrl articleTitle articleDescription visibility tr
         \<or> run = postImage w a text imagePath visibility tr
         \<or> run = getUserProfile w a tr"
    and "truthy (of_env (accessToken a))" and "\<not> truthy (of_env (personURN a))"
  shows "fst run = Inl (Error ''LINKEDIN_PERSON_URN is not set in .env file'')"
proof -
  have inv: "\<not> valid a"
    using assms(3) by (simp add: valid_def)
  show ?thesis
    using assms(1) by (auto simp add: invalid_run [OF inv] handleError_run assms(2))
qed

lemma postTextUpdate_id_error:
  assumes "valid a"
    and "axios w tr (createRequest a (textPostData a text (default_param v (JStr ''PUBLIC''))))
           = Inr d"
    and "get_prop d ''id'' = Inl e"
  shows "fst (postTextUpdate w a text v tr) = Inl e"
  unfolding postTextUpdate_run [OF assms(1)] using assms(2,3) by (simp add: Let_def)

lemma postArticle_id_error:
  assumes "valid a"
    and "axios w tr (createRequest a
           (articlePostData a text u ti de (default_param v (JStr ''PUBLIC'')))) = Inr d"
    and "get_prop d ''id'' = Inl e"
  shows "fst (postArticle w a text u ti de v tr) = Inl e"
  unfolding postArticle_run [OF assms(1)] using assms(2,3) by (simp add: Let_def)

lemma postImage_answer_error:
  assumes "valid a"
    and "axios w tr (registerRequest a) = Inr d"
    and "upload_target d = Inl e"
  shows "fst (postImage w a text p v tr) = Inl e"
  unfolding postImage_run [OF assms(1)] using assms(2,3) by (simp add: Let_def)

lemma postImage_id_error:
  assumes "valid a"
    and "axios w tr (registerRequest a) = Inr d"
    and "upload_target d = Inr (u, s)"
    and "uploadImage w a u p (tr @ [Http (registerRequest a)]) = (Inr (), mid)"
    and "axios w mid (createRequest a (imagePostData a text s (default_param v (JStr ''PUBLIC''))))
           = Inr d2"
    and "get_prop d2 ''id'' = Inl e"
  shows "fst (postImage w a text p v tr) = Inl e"
  unfolding postImage_run [OF assms(1)] using assms(2-6) by (simp add: Let_def)

section \<open>The image upload pipeline\<close>



text \<open>
  Claim C9. Under valid credentials \<^verbatim>\<open>postImage\<close> sends the registration request
  before anything else, and it reads the image file only in a run whose registration
  request was answered successfully. So for an image path that cannot be read, once the
  registration has succeeded (with an answer of the expected shape), \<^verbatim>\<open>postImage\<close>
  fails with the error of the file read, having sent the registration request and nothing
  else: the registered asset is abandoned, no cleanup request follows.
\<close>

theorem postImage_reads_file_after_registration:
  assumes "valid a"
  shows "(\<exists>rest. snd (postImage w a text imagePath visibility tr)
                   = tr @ Http (registerRequest a) # rest)
       \<and> ((\<exists>p. ReadFile p \<in> set (drop (length tr) (snd (postImage w a text imagePath visibility tr))))
            \<longrightarrow> (\<exists>d. axios w tr (registerRequest a) = Inr d))
       \<and> (\<forall>d u s e.
             axios w tr (registerRequest a) = Inr d \<and> upload_target d = Inr (u, s)
             \<and> readFileSync w (tr @ [Http (registerRequest a)]) imagePath = Inl e
             \<longrightarrow> postImage w a text imagePath visibility tr
                   = (Inl e, tr @ [Http (registerRequest a), ReadFile imagePath] @ diagnostic e)
                 \<and> http_calls (snd (postImage w a text imagePath visibility tr))
                   = http_calls tr @ [registerRequest a])"
proof -
  note r = postImage_run [OF assms, of w "text" imagePath visibility tr]
  have first: "\<exists>rest. snd (postImage w a text imagePath visibility tr)
                   = tr @ Http (registerRequest a) # rest"
    unfolding r by (simp add: Let_def uploadImage_run split: sum.splits prod.splits)
  have only_after: "(\<exists>p. ReadFile p \<in> set (drop (length tr) (snd (postImage w a text imagePath visibility tr))))
            \<longrightarrow> (\<exists>d. axios w tr (registerRequest a) = Inr d)"
    unfolding r by (simp add: Let_def ReadFile_diagnostic split: sum.splits prod.splits)
  have unreadable: "postImage w a text imagePath visibility tr
                   = (Inl e, tr @ [Http (registerRequest a), ReadFile imagePath] @ diagnostic e)
                 \<and> http_calls (snd (postImage w a text imagePath visibility tr))
                   = http_calls tr @ [registerRequest a]"
    if "axios w tr (registerRequest a) = Inr d" "upload_target d = Inr (u, s)"
       "readFileSync w (tr @ [Http (registerRequest a)]) imagePath = Inl e" for d u s e
    unfolding r using that
    by (simp add: Let_def uploadImage_run http_calls_append http_calls_diagnostic)
  show ?thesis
    using first only_after unreadable by blast
qed

theorem postImage_reads_file_after_registration_witness:
  "valid demo_agent
   \<and> axios no_file_world [] (registerRequest demo_agent) = Inr registered
   \<and> upload_target registered = Inr (JStr ''https://u'', JStr ''urn:li:digitalmediaAsset:1'')
   \<and> readFileSync no_file_world ([] @ [Http (registerRequest demo_agent)]) (JStr ''/tmp/none.jpg'')
       = Inl enoent
   \<and> postImage no_file_world demo_agent (JStr ''caption'') (JStr ''/tmp/none.jpg'') (JStr ''PUBLIC'') []
       = (Inl enoent,
          [] @ [Http (registerRequest demo_agent), ReadFile (JStr ''/tmp/none.jpg'')]
             @ diagnostic enoent)
   \<and> http_calls (snd (postImage no_file_world demo_agent (JStr ''caption'') (JStr ''/tmp/none.jpg'')
        (JStr ''PUBLIC'') [])) = http_calls [] @ [registerRequest demo_agent]"
proof -
  have reg: "axios no_file_world [] (registerRequest demo_agent) = Inr registered"
    by (simp add: no_file_world_def stub_world_register)
  have rd: "readFileSync no_file_world ([] @ [Http (registerRequest demo_agent)])
              (JStr ''/tmp/none.jpg'') = Inl enoent"
    by (simp add: no_file_world_def)
  show ?thesis
    using postImage_reads_file_after_registration [OF valid_demo_agent,
        of no_file_world "JStr ''caption''" "JStr ''/tmp/none.jpg''" "JStr ''PUBLIC''" "[]"]
      valid_demo_agent reg rd upload_target_registered
    by blast
qed

section \<open>Error handling\<close>

text \<open>
  Claim C5. For each of the four Publisher operations: a run that fails with an error
  \<open>e\<close> ends with the diagnostic of \<open>e\<close>, which is one of three shapes: for an error
  with a response, the headline, the status code and the response body; for an error with
  a request and no response, the no-response headline and the message; for any other
  error, the message. Every failure of the call chain is the result of the run: an error
  with which a library call (a request or the file read) was answered, the configuration
  error of \<^verbatim>\<open>validateConfig\<close>, and the \<^verbatim>\<open>TypeError\<close> of reading the \<^verbatim>\<open>id\<close> of an
  empty response body or the upload URL of a malformed registration answer. No run sees
  more than one library error: nothing is swallowed and nothing is tried again.
\<close>

theorem publisher_failure_logged_and_rethrown:
  assumes "run = postTextUpdate w a text visibility tr
         \<or> run = postArticle w a text articleUrl articleTitle articleDescription visibility tr
         \<or> run = postImage w a text imagePath visibility tr
         \<or> run = getUserProfile w a tr"
  shows "(\<forall>e. fst run = Inl e \<longrightarrow>
            (\<exists>before. snd run = before @
               (if truthy (response e) then
                  [ConsoleError [JStr ''LinkedIn API Error:''],
                   ConsoleError [JStr ''Status:'', prop_of (response e) ''status''],
                   ConsoleError [JStr ''Message:'', prop_of (response e) ''data'']]
                else if truthy (request e) then
                  [ConsoleError [JStr ''No response received from LinkedIn API''],
                   ConsoleError [JStr (message e)]]
                else
                  [ConsoleError [JStr ''Error:'', JStr (message e)]])))
       \<and> (\<forall>e \<in> set (library_errors w tr (drop (length tr) (snd run))). fst run = Inl e)
       \<and> length (library_errors w tr (drop (length tr) (snd run))) \<le> 1
       \<and> (\<not> truthy (of_env (accessToken a)) \<longrightarrow>
             fst run = Inl (Error ''LINKEDIN_ACCESS_TOKEN is not set in .env file''))
       \<and> (truthy (of_env (accessToken a)) \<and> \<not> truthy (of_env (personURN a)) \<longrightarrow>
             fst run = Inl (Error ''LINKEDIN_PERSON_URN is not set in .env file''))
       \<and> (\<forall>d e. valid a
             \<and> axios w tr (createRequest a
                   (textPostData a text (default_param visibility (JStr ''PUBLIC'')))) = Inr d
             \<and> get_prop d ''id'' = Inl e
             \<longrightarrow> fst (postTextUpdate w a text visibility tr) = Inl e)
       \<and> (\<forall>d e. valid a
             \<and> axios w tr (createRequest a
                   (articlePostData a text articleUrl articleTitle articleDescription
                      (default_param visibility (JStr ''PUBLIC'')))) = Inr d
             \<and> get_prop d ''id'' = Inl e
             \<longrightarrow> fst (postArticle w a text articleUrl articleTitle articleDescription
                        visibility tr) = Inl e)
       \<and> (\<forall>d e. valid a \<and> axios w tr (registerRequest a) = Inr d \<and> upload_target d = Inl e
             \<longrightarrow> fst (postImage w a text imagePath visibility tr) = Inl e)
       \<and> (\<forall>d u s mid d2 e. valid a
             \<and> axios w tr (registerRequest a) = Inr d \<and> upload_target d = Inr (u, s)
             \<and> uploadImage w a u imagePath (tr @ [Http (registerRequest a)]) = (Inr (), mid)
             \<and> axios w mid (createRequest a
                   (imagePostData a text s (default_param visibility (JStr ''PUBLIC'')))) = Inr d2
             \<and> get_prop d2 ''id'' = Inl e
             \<longrightarrow> fst (postImage w a text imagePath visibility tr) = Inl e)"
proof -
  have logged: "\<exists>before. snd run = before @ diagnostic e" if "fst run = Inl e" for e
    using publisher_logged [OF assms that] .
  have errs: "library_errors w tr (drop (length tr) (snd run)) = []
      \<or> (\<exists>e. library_errors w tr (drop (length tr) (snd run)) = [e] \<and> fst run = Inl e)"
    using assms postTextUpdate_errors [of w tr a "text" visibility]
      postArticle_errors [of w tr a "text" articleUrl articleTitle articleDescription visibility]
      postImage_errors [of w tr a "text" imagePath visibility]
      getUserProfile_errors [of w tr a]
    by blast
  have first3: "(\<forall>e. fst run = Inl e \<longrightarrow>
            (\<exists>before. snd run = before @
               (if truthy (response e) then
                  [ConsoleError [JStr ''LinkedIn API Error:''],
                   ConsoleError [JStr ''Status:'', prop_of (response e) ''status''],
                   ConsoleError [JStr ''Message:'', prop_of (response e) ''data'']]
                else if truthy (request e) then
                  [ConsoleError [JStr ''No response received from LinkedIn API''],
                   ConsoleError [JStr (message e)]]
                else
                  [ConsoleError [JStr ''Error:'', JStr (message e)]])))
       \<and> (\<forall>e \<in> set (library_errors w tr (drop (length tr) (snd run))). fst run = Inl e)
       \<and> length (library_errors w tr (drop (length tr) (snd run))) \<le> 1"
    using logged errs unfolding diagnostic_def by auto
  have token: "\<not> truthy (of_env (accessToken a)) \<longrightarrow>
             fst run = Inl (Error ''LINKEDIN_ACCESS_TOKEN is not set in .env file'')"
    using invalid_token_result [OF assms] by blast
  have urn: "truthy (of_env (accessToken a)) \<and> \<not> truthy (of_env (personURN a)) \<longrightarrow>
             fst run = Inl (Error ''LINKEDIN_PERSON_URN is not set in .env file'')"
    using invalid_urn_result [OF assms] by blast
  have own: "\<forall>d e. valid a
             \<and> axios w tr (createRequest a
                   (textPostData a text (default_param visibility (JStr ''PUBLIC'')))) = Inr d
             \<and> get_prop d ''id'' = Inl e
             \<longrightarrow> fst (postTextUpdate w a text visibility tr) = Inl e"
    "\<forall>d e. valid a
             \<and> axios w tr (createRequest a
                   (articlePostData a text articleUrl articleTitle articleDescription
                      (default_param visibility (JStr ''PUBLIC'')))) = Inr d
             \<and> get_prop d ''id'' = Inl e
             \<longrightarrow> fst (postArticle w a text articleUrl articleTitle articleDescription
                        visibility tr) = Inl e"
    "\<forall>d e. valid a \<and> axios w tr (registerRequest a) = Inr d \<and> upload_target d = Inl e
             \<longrightarrow> fst (postImage w a text imagePath visibility tr) = Inl e"
    "\<forall>d u s mid d2 e. valid a
             \<and> axios w tr (registerRequest a) = Inr d \<and> upload_target d = Inr (u, s)
             \<and> uploadImage w a u imagePath (tr @ [Http (registerRequest a)]) = (Inr (), mid)
             \<and> axios w mid (createRequest a
                   (imagePostData a text s (default_param visibility (JStr ''PUBLIC'')))) = Inr d2
             \<and> get_prop d2 ''id'' = Inl e
             \<longrightarrow> fst (postImage w a text imagePath visibility tr) = Inl e"
    by (simp_all add: postTextUpdate_id_error postArticle_id_error postImage_answer_error)
       (blast intro: postImage_id_error)
  show ?thesis
    using first3 [THEN conjunct1] first3 [THEN conjunct2, THEN conjunct1]
      first3 [THEN conjunct2, THEN conjunct2] token urn own
    by (intro conjI) assumption+
qed

theorem publisher_failure_logged_and_rethrown_witness:
  "fst (postImage upload_refused_world demo_agent (JStr ''caption'') (JStr ''/tmp/x.jpg'')
          (JStr ''PUBLIC'') []) = Inl bad_request
   \<and> (\<exists>before. snd (postImage upload_refused_world demo_agent (JStr ''caption'')
                      (JStr ''/tmp/x.jpg'') (JStr ''PUBLIC'') []) =
          before @ [ConsoleError [JStr ''LinkedIn API Error:''],
                    ConsoleError [JStr ''Status:'', JNum 400],
                    ConsoleError [JStr ''Message:'', JStr ''bad upload'']])
   \<and> length (library_errors upload_refused_world []
        (drop (length ([] :: event list))
           (snd (postImage upload_refused_world demo_agent (JStr ''caption'')
                   (JStr ''/tmp/x.jpg'') (JStr ''PUBLIC'') [])))) \<le> 1
   \<and> valid demo_agent
   \<and> axios null_body_world []
         (createRequest demo_agent
            (textPostData demo_agent (JStr ''hello'')
               (default_param (JStr ''PUBLIC'') (JStr ''PUBLIC'')))) = Inr JNull
   \<and> get_prop JNull ''id'' = Inl (TypeError ''Cannot read properties of null (reading id)'')
   \<and> fst (postTextUpdate null_body_world demo_agent (JStr ''hello'') (JStr ''PUBLIC'') [])
        = Inl (TypeError ''Cannot read properties of null (reading id)'')
   \<and> \<not> truthy (of_env (accessToken (LinkedInAgent None (Some ''urn:li:person:42''))))
   \<and> fst (getUserProfile stub_world (LinkedInAgent None (Some ''urn:li:person:42'')) [])
        = Inl (Error ''LINKEDIN_ACCESS_TOKEN is not set in .env file'')"
proof -
  let ?run = "postImage upload_refused_world demo_agent (JStr ''caption'') (JStr ''/tmp/x.jpg'')
                (JStr ''PUBLIC'') []"
  have op: "?run = postTextUpdate upload_refused_world demo_agent (JStr ''caption'')
                     (JStr ''PUBLIC'') []
          \<or> ?run = postArticle upload_refused_world demo_agent (JStr ''caption'') JUndefined
                     JUndefined JUndefined (JStr ''PUBLIC'') []
          \<or> ?run = postImage upload_refused_world demo_agent (JStr ''caption'')
                     (JStr ''/tmp/x.jpg'') (JStr ''PUBLIC'') []
          \<or> ?run = getUserProfile upload_refused_world demo_agent []"
    by simp
  have failed: "fst ?run = Inl bad_request"
    by (simp add: postImage_upload_refused)
  have shape: "truthy (response bad_request)"
    "prop_of (response bad_request) ''status'' = JNum 400"
    "prop_of (response bad_request) ''data'' = JStr ''bad upload''"
    by (simp_all add: bad_request_def)
  note refused = publisher_failure_logged_and_rethrown [OF op]
  have logged: "\<exists>before. snd ?run =
          before @ [ConsoleError [JStr ''LinkedIn API Error:''],
                    ConsoleError [JStr ''Status:'', JNum 400],
                    ConsoleError [JStr ''Message:'', JStr ''bad upload'']]"
    using refused [THEN conjunct1] failed shape by auto
  have once: "length (library_errors upload_refused_world []
        (drop (length ([] :: event list)) (snd ?run))) \<le> 1"
    using refused [THEN conjunct2, THEN conjunct2, THEN conjunct1] .
  let ?post = "postTextUpdate null_body_world demo_agent (JStr ''hello'') (JStr ''PUBLIC'') []"
  have op2: "?post = postTextUpdate null_body_world demo_agent (JStr ''hello'')
                     (JStr ''PUBLIC'') []
          \<or> ?post = postArticle null_body_world demo_agent (JStr ''hello'') JUndefined
                     JUndefined JUndefined (JStr ''PUBLIC'') []
          \<or> ?post = postImage null_body_world demo_agent (JStr ''hello'')
                     JUndefined (JStr ''PUBLIC'') []
          \<or> ?post = getUserProfile null_body_world demo_agent []"
    by simp
  have answered: "axios null_body_world []
         (createRequest demo_agent
            (textPostData demo_agent (JStr ''hello'')
               (default_param (JStr ''PUBLIC'') (JStr ''PUBLIC'')))) = Inr JNull"
    by (simp add: null_body_world_def)
  have thrown: "get_prop JNull ''id''
                  = Inl (TypeError ''Cannot read properties of null (reading id)'')"
    by simp
  have own: "fst ?post = Inl (TypeError ''Cannot read properties of null (reading id)'')"
    using publisher_failure_logged_and_rethrown [OF op2, THEN conjunct2, THEN conjunct2,
        THEN conjunct2, THEN conjunct2, THEN conjunct2, THEN conjunct1]
      valid_demo_agent answered thrown
    by blast
  let ?anon = "LinkedInAgent None (Some ''urn:li:person:42'')"
  let ?me = "getUserProfile stub_world ?anon []"
  have op3: "?me = postTextUpdate stub_world ?anon JUndefined JUndefined []
          \<or> ?me = postArticle stub_world ?anon JUndefined JUndefined JUndefined JUndefined
                     JUndefined []
          \<or> ?me = postImage stub_world ?anon JUndefined JUndefined JUndefined []
          \<or> ?me = getUserProfile stub_world ?anon []"
    by simp
  have missing: "\<not> truthy (of_env (accessToken ?anon))"
    by (simp add: LinkedInAgent_def)
  have config: "fst ?me = Inl (Error ''LINKEDIN_ACCESS_TOKEN is not set in .env file'')"
    using publisher_failure_logged_and_rethrown [OF op3, THEN conjunct2, THEN conjunct2,
        THEN conjunct2, THEN conjunct1] missing
    by blast
  show ?thesis
    using failed logged once valid_demo_agent answered thrown own missing config
    by (intro conjI) assumption+
qed

section \<open>Payload construction\<close>

text \<open>
  Claim C8. The payload is a function of the post's inputs and the actor URN alone. Take
  two runs of the same posting operation with the same inputs, in any two worlds, after
  any two histories, by two agents that share the URN (and may differ in everything
  else): both submit the same document, the value of the builder for those inputs. No
  library call lies between the start of the operation (for an image post: the end of
  the upload) and the request that carries the payload, so building it does no I/O.
\<close>

theorem payload_is_function_of_inputs:
  assumes "valid a1" and "valid a2" and "personURN a1 = personURN a2"
  shows "(let p = textPostData a1 text (default_param visibility (JStr ''PUBLIC'')) in
            (\<exists>rest. snd (postTextUpdate w1 a1 text visibility tr1)
                      = tr1 @ Http (createRequest a1 p) # rest)
          \<and> (\<exists>rest. snd (postTextUpdate w2 a2 text visibility tr2)
                      = tr2 @ Http (createRequest a2 p) # rest))
       \<and> (let p = articlePostData a1 text articleUrl articleTitle articleDescription
                     (default_param visibility (JStr ''PUBLIC'')) in
            (\<exists>rest. snd (postArticle w1 a1 text articleUrl articleTitle articleDescription
                             visibility tr1)
                      = tr1 @ Http (createRequest a1 p) # rest)
          \<and> (\<exists>rest. snd (postArticle w2 a2 text articleUrl articleTitle articleDescription
                             visibility tr2)
                      = tr2 @ Http (createRequest a2 p) # rest))
       \<and> (\<forall>d1 d2 u1 u2 asset mid1 mid2.
             axios w1 tr1 (registerRequest a1) = Inr d1 \<and> upload_target d1 = Inr (u1, asset)
             \<and> uploadImage w1 a1 u1 path1 (tr1 @ [Http (registerRequest a1)]) = (Inr (), mid1)
             \<and> axios w2 tr2 (registerRequest a2) = Inr d2 \<and> upload_target d2 = Inr (u2, asset)
             \<and> uploadImage w2 a2 u2 path2 (tr2 @ [Http (registerRequest a2)]) = (Inr (), mid2)
             \<longrightarrow>
             (let p = imagePostData a1 text asset (default_param visibility (JStr ''PUBLIC'')) in
                (\<exists>rest. snd (postImage w1 a1 text path1 visibility tr1)
                          = mid1 @ Http (createRequest a1 p) # rest)
              \<and> (\<exists>rest. snd (postImage w2 a2 text path2 visibility tr2)
                          = mid2 @ Http (createRequest a2 p) # rest)))"
proof -
  note urn = postData_urn [OF assms(3)]
  have txt_runs: "\<exists>rest. snd (postTextUpdate w1 a1 text visibility tr1) = tr1 @ Http (createRequest a1
               (textPostData a1 text (default_param visibility (JStr ''PUBLIC'')))) # rest"
    "\<exists>rest. snd (postTextUpdate w2 a2 text visibility tr2) = tr2 @ Http (createRequest a2
               (textPostData a1 text (default_param visibility (JStr ''PUBLIC'')))) # rest"
    using postTextUpdate_first [OF assms(1)] postTextUpdate_first [OF assms(2)]
    unfolding urn by blast+
  have art: "\<exists>rest. snd (postArticle w1 a1 text articleUrl articleTitle articleDescription
                             visibility tr1) = tr1 @ Http (createRequest a1
               (articlePostData a1 text articleUrl articleTitle articleDescription
                  (default_param visibility (JStr ''PUBLIC'')))) # rest"
    "\<exists>rest. snd (postArticle w2 a2 text articleUrl articleTitle articleDescription
                             visibility tr2) = tr2 @ Http (createRequest a2
               (articlePostData a1 text articleUrl articleTitle articleDescription
                  (default_param visibility (JStr ''PUBLIC'')))) # rest"
    using postArticle_first [OF assms(1)] postArticle_first [OF assms(2)]
    unfolding urn by blast+
  have img: "(\<exists>rest. snd (postImage w1 a1 text path1 visibility tr1) = mid1 @ Http (createRequest a1
                (imagePostData a1 text asset (default_param visibility (JStr ''PUBLIC'')))) # rest)
           \<and> (\<exists>rest. snd (postImage w2 a2 text path2 visibility tr2) = mid2 @ Http (createRequest a2
                (imagePostData a1 text asset (default_param visibility (JStr ''PUBLIC'')))) # rest)"
    if "axios w1 tr1 (registerRequest a1) = Inr d1" "upload_target d1 = Inr (u1, asset)"
       "uploadImage w1 a1 u1 path1 (tr1 @ [Http (registerRequest a1)]) = (Inr (), mid1)"
       "axios w2 tr2 (registerRequest a2) = Inr d2" "upload_target d2 = Inr (u2, asset)"
       "uploadImage w2 a2 u2 path2 (tr2 @ [Http (registerRequest a2)]) = (Inr (), mid2)"
    for d1 d2 u1 u2 asset mid1 mid2
    using postImage_after_upload [OF assms(1) that(1-3)]
      postImage_after_upload [OF assms(2) that(4-6)]
    unfolding urn by blast
  show ?thesis
    unfolding Let_def using txt_runs art img by blast
qed

theorem payload_is_function_of_inputs_witness:
  "valid demo_agent \<and> valid other_agent \<and> personURN demo_agent = personURN other_agent
   \<and> accessToken demo_agent \<noteq> accessToken other_agent
   \<and> (\<exists>rest. snd (postTextUpdate stub_world demo_agent (JStr ''hello'') (JStr ''PUBLIC'') [])
         = [] @ Http (createRequest demo_agent
                        (textPostData demo_agent (JStr ''hello'') (JStr ''PUBLIC''))) # rest)
   \<and> (\<exists>rest. snd (postTextUpdate offline_world other_agent (JStr ''hello'') (JStr ''PUBLIC'')
                       [ConsoleLog []])
         = [ConsoleLog []] @ Http (createRequest other_agent
                        (textPostData demo_agent (JStr ''hello'') (JStr ''PUBLIC''))) # rest)"
proof -
  have tok: "accessToken demo_agent \<noteq> accessToken other_agent"
    by (simp add: demo_agent_def other_agent_def LinkedInAgent_def)
  have d: "default_param (JStr ''PUBLIC'') (JStr ''PUBLIC'') = JStr ''PUBLIC''"
    by (simp add: default_param_def)
  show ?thesis
    using payload_is_function_of_inputs [OF valid_demo_agent valid_other_agent same_urn,
        of "JStr ''hello''" "JStr ''PUBLIC''" stub_world "[]" offline_world "[ConsoleLog []]"]
      valid_demo_agent valid_other_agent same_urn tok
    unfolding Let_def d by blast
qed

section \<open>Scheduler\<close>

text \<open>
  Claim C10 says that for a post configuration of unknown \<^verbatim>\<open>type\<close> \<^verbatim>\<open>schedulePost\<close>
  registers a timer and returns its handle. What comes back is the timer library's
  answer, whatever the \<^verbatim>\<open>type\<close>: for a fire time that has passed the library registers
  nothing and \<^verbatim>\<open>schedulePost\<close> returns \<^verbatim>\<open>null\<close>.
\<close>

theorem unknown_type_job_no_handle_counterexample:
  "get_prop (JObj [(''type'', JStr ''video''), (''text'', JStr ''clip'')]) ''type''
     = Inr (JStr ''video'')
   \<and> schedulePost (timer_world 1793577600000) demo_agent
        (JObj [(''type'', JStr ''video''), (''text'', JStr ''clip'')]) 0 []
       = (None,
          [ConsoleLog [JStr ''Post scheduled for Thu Jan 01 1970 00:00:00 GMT+0000 (Coordinated Universal Time)''],
           ScheduleJob 0 (JObj [(''type'', JStr ''video''), (''text'', JStr ''clip'')])])"
  by (simp add: schedulePost_def Let_def timer_world_fields)

text \<open>
  Claim C10, as amended. For a post configuration whose \<^verbatim>\<open>type\<close> is none of
  \<^verbatim>\<open>'text'\<close>, \<^verbatim>\<open>'article'\<close> and \<^verbatim>\<open>'image'\<close>, \<^verbatim>\<open>schedulePost\<close> hands the job to the
  timer library all the same, exactly as for a text post, and returns the library's
  answer: the job's handle when the library registers the timer, \<^verbatim>\<open>null\<close> when it does
  not. The job body, when fired, prints its opening line and completes normally, with no
  Publisher call and no request.
\<close>

theorem unknown_type_job_does_nothing:
  assumes "get_prop postConfig ''type'' = Inr ty"
    and "ty \<noteq> JStr ''text''" and "ty \<noteq> JStr ''article''" and "ty \<noteq> JStr ''image''"
  shows "schedulePost w a postConfig scheduledTime tr =
           (scheduleJob w
              (tr @ [ConsoleLog [JStr (''Post scheduled for '' @ dateString w scheduledTime)]])
              scheduledTime,
            tr @ [ConsoleLog [JStr (''Post scheduled for '' @ dateString w scheduledTime)],
                  ScheduleJob scheduledTime postConfig])
       \<and> fst (schedulePost w a postConfig scheduledTime tr)
           = fst (schedulePost w a (JObj [(''type'', JStr ''text'')]) scheduledTime tr)
       \<and> job_body w a postConfig fired
           = (Inr (), fired @ [ConsoleLog [JStr ''Executing scheduled post...'']])
       \<and> (\<forall>h. scheduleJob w
                 (tr @ [ConsoleLog [JStr (''Post scheduled for '' @ dateString w scheduledTime)]])
                 scheduledTime = Some h
             \<longrightarrow> fst (schedulePost w a postConfig scheduledTime tr) = Some h)
       \<and> (scheduleJob w
             (tr @ [ConsoleLog [JStr (''Post scheduled for '' @ dateString w scheduledTime)]])
             scheduledTime = None
             \<longrightarrow> fst (schedulePost w a postConfig scheduledTime tr) = None)"
  using assms
  by (simp add: schedulePost_def Let_def job_body_def bind_io_def console_log_def eval_io_def
      return_io_def)

theorem unknown_type_job_does_nothing_witness:
  "get_prop (JObj [(''type'', JStr ''video''), (''text'', JStr ''clip'')]) ''type''
     = Inr (JStr ''video'')
   \<and> JStr ''video'' \<noteq> JStr ''text'' \<and> JStr ''video'' \<noteq> JStr ''article''
   \<and> JStr ''video'' \<noteq> JStr ''image''
   \<and> scheduleJob (timer_world 1793577600000)
        ([] @ [ConsoleLog [JStr (''Post scheduled for ''
                 @ dateString (timer_world 1793577600000) 4102444800000)]])
        4102444800000 = Some 0
   \<and> schedulePost (timer_world 1793577600000) demo_agent
        (JObj [(''type'', JStr ''video''), (''text'', JStr ''clip'')]) 4102444800000 []
       = (Some 0,
          [ConsoleLog [JStr ''Post scheduled for Fri Jan 01 2100 00:00:00 GMT+0000 (Coordinated Universal Time)''],
           ScheduleJob 4102444800000
             (JObj [(''type'', JStr ''video''), (''text'', JStr ''clip'')])])
   \<and> job_body offline_world demo_agent
        (JObj [(''type'', JStr ''video''), (''text'', JStr ''clip'')]) []
       = (Inr (), [ConsoleLog [JStr ''Executing scheduled post...'']])"
proof -
  have ty: "get_prop (JObj [(''type'', JStr ''video''), (''text'', JStr ''clip'')]) ''type''
              = Inr (JStr ''video'')"
    by simp
  have ne: "JStr ''video'' \<noteq> JStr ''text''" "JStr ''video'' \<noteq> JStr ''article''"
    "JStr ''video'' \<noteq> JStr ''image''"
    by simp_all
  show ?thesis
    using unknown_type_job_does_nothing [OF ty ne, of "timer_world 1793577600000" demo_agent
        4102444800000 "[]" "[]"]
      unknown_type_job_does_nothing [OF ty ne, of offline_world demo_agent 0 "[]" "[]"]
      ty ne
    by (simp add: timer_world_fields)
qed

text \<open>
  Claim C4 says that a failure of the Publisher call is swallowed inside the job body.
  It is not: with no network, the body of a text job ends with the error that
  \<^verbatim>\<open>postTextUpdate\<close> re-threw.
\<close>

theorem job_failure_swallowed_counterexample:
  "job_body offline_world demo_agent (JObj [(''type'', JStr ''text''), (''text'', JStr ''later'')])
     [] =
     (Inl no_response,
      [ConsoleLog [JStr ''Executing scheduled post...''],
       Http (createRequest demo_agent (textPostData demo_agent (JStr ''later'') (JStr ''PUBLIC''))),
       ConsoleError [JStr ''No response received from LinkedIn API''],
       ConsoleError [JStr ''getaddrinfo ENOTFOUND api.linkedin.com'']])"
  by (simp add: job_body_def bind_io_def console_log_def eval_io_def postTextUpdate_offline)

text \<open>
  Claim C4, as amended. When a scheduled job fires and its Publisher call fails, the
  failure has been logged by the Publisher's \<^verbatim>\<open>handleError\<close> and re-thrown; the job
  body has no handler of its own, so it ends there with the same error, which reaches the
  timer library that invoked the job.
\<close>

theorem job_failure_leaves_job_body:
  assumes "get_prop postConfig ''type'' = Inr ty"
    and "(ty = JStr ''text'' \<and>
            publish = postTextUpdate w a (prop_of postConfig ''text'')
                        (prop_of postConfig ''visibility''))
       \<or> (ty = JStr ''article'' \<and>
            publish = postArticle w a (prop_of postConfig ''text'')
                        (prop_of postConfig ''articleUrl'') (prop_of postConfig ''articleTitle'')
                        (prop_of postConfig ''articleDescription'')
                        (prop_of postConfig ''visibility''))
       \<or> (ty = JStr ''image'' \<and>
            publish = postImage w a (prop_of postConfig ''text'')
                        (prop_of postConfig ''imagePath'') (prop_of postConfig ''visibility''))"
    and "publish (tr @ [ConsoleLog [JStr ''Executing scheduled post...'']]) = (Inl e, tr')"
  shows "job_body w a postConfig tr = (Inl e, tr') \<and> (\<exists>before. tr' = before @ diagnostic e)"
proof -
  have body: "job_body w a postConfig tr = (Inl e, tr')"
    using assms
    by (auto simp add: job_body_def bind_io_def console_log_def eval_io_def return_io_def)
  have "\<exists>before. tr' = before @ diagnostic e"
    using assms(2,3)
    by (auto simp add: postTextUpdate_def postArticle_def postImage_def Let_def
        dest: try_catch_handleError)
  with body show ?thesis by simp
qed

theorem job_failure_leaves_job_body_witness:
  "get_prop (JObj [(''type'', JStr ''image''), (''text'', JStr ''caption''),
                   (''imagePath'', JStr ''/tmp/none.jpg'')]) ''type'' = Inr (JStr ''image'')
   \<and> postImage no_file_world demo_agent (JStr ''caption'') (JStr ''/tmp/none.jpg'') JUndefined
        ([] @ [ConsoleLog [JStr ''Executing scheduled post...'']])
       = (Inl enoent,
          [ConsoleLog [JStr ''Executing scheduled post...''],
           Http (registerRequest demo_agent), ReadFile (JStr ''/tmp/none.jpg'')]
          @ diagnostic enoent)
   \<and> job_body no_file_world demo_agent
        (JObj [(''type'', JStr ''image''), (''text'', JStr ''caption''),
               (''imagePath'', JStr ''/tmp/none.jpg'')]) []
       = (Inl enoent,
          [ConsoleLog [JStr ''Executing scheduled post...''],
           Http (registerRequest demo_agent), ReadFile (JStr ''/tmp/none.jpg'')]
          @ diagnostic enoent)"
proof -
  let ?c = "JObj [(''type'', JStr ''image''), (''text'', JStr ''caption''),
                  (''imagePath'', JStr ''/tmp/none.jpg'')]"
  have ty: "get_prop ?c ''type'' = Inr (JStr ''image'')"
    by simp
  have pub: "(JStr ''image'' = JStr ''text'' \<and>
            postImage no_file_world demo_agent (JStr ''caption'') (JStr ''/tmp/none.jpg'') JUndefined
              = postTextUpdate no_file_world demo_agent (prop_of ?c ''text'')
                        (prop_of ?c ''visibility''))
       \<or> (JStr ''image'' = JStr ''article'' \<and>
            postImage no_file_world demo_agent (JStr ''caption'') (JStr ''/tmp/none.jpg'') JUndefined
              = postArticle no_file_world demo_agent (prop_of ?c ''text'')
                        (prop_of ?c ''articleUrl'') (prop_of ?c ''articleTitle'')
                        (prop_of ?c ''articleDescription'')
                        (prop_of ?c ''visibility''))
       \<or> (JStr ''image'' = JStr ''image'' \<and>
            postImage no_file_world demo_agent (JStr ''caption'') (JStr ''/tmp/none.jpg'') JUndefined
              = postImage no_file_world demo_agent (prop_of ?c ''text'')
                        (prop_of ?c ''imagePath'') (prop_of ?c ''visibility''))"
    by simp
  have run: "postImage no_file_world demo_agent (JStr ''caption'') (JStr ''/tmp/none.jpg'') JUndefined
        ([] @ [ConsoleLog [JStr ''Executing scheduled post...'']])
       = (Inl enoent,
          [ConsoleLog [JStr ''Executing scheduled post...''],
           Http (registerRequest demo_agent), ReadFile (JStr ''/tmp/none.jpg'')]
          @ diagnostic enoent)"
    by (simp add: postImage_no_file)
  show ?thesis
    using job_failure_leaves_job_body [OF ty pub run] ty run by simp
qed

end
